theory Spec2Isabelle
  imports Main "HOL-Library.Word"
begin

section \<open>Reconnect backoff (conn package, getRetryDelay)\<close>

text \<open>
  Go's \<open>time.Duration\<close> is a count of nanoseconds. The constants below are those of
  package \<open>time\<close>; \<open>getRetryDelay\<close> only multiplies them by small literals, so the
  64-bit range is never approached and the durations are modelled as \<open>int\<close>.
  The attempt counter is a Go \<open>int\<close>; the function only compares it.
\<close>

type_synonym duration = int

definition Second :: duration where
  "Second = 1000000000"

definition Minute :: duration where
  "Minute = 60 * Second"

definition getRetryDelay :: "int \<Rightarrow> bool \<Rightarrow> bool \<Rightarrow> duration" where
  "getRetryDelay attempt authFailed notLoggedIn =
     (if notLoggedIn then 30 * Second
      else if authFailed then 60 * Second
      else if attempt = 1 then 0
      else if attempt \<le> 4 then 5 * Second
      else if attempt \<le> 7 then 15 * Second
      else if attempt \<le> 10 then 30 * Second
      else if attempt \<le> 15 then 60 * Second
      else 5 * Minute)"

text \<open>The delay table of the specification, in seconds, written from its rows.\<close>

definition spec_delay_seconds :: "int \<Rightarrow> bool \<Rightarrow> bool \<Rightarrow> int" where
  "spec_delay_seconds n authFailed notLoggedIn =
     (if notLoggedIn then 30
      else if authFailed then 60
      else if n = 1 then 0
      else if 2 \<le> n \<and> n \<le> 4 then 5
      else if 5 \<le> n \<and> n \<le> 7 then 15
      else if 8 \<le> n \<and> n \<le> 10 then 30
      else if 11 \<le> n \<and> n \<le> 15 then 60
      else 300)"

section \<open>Bytes, strings and the stream ends (package conn, binary protocol)\<close>

text \<open>
  A Go \<open>byte\<close> is an 8-bit word and a Go \<open>string\<close> is a sequence of bytes, modelled as an
  Isabelle \<open>string\<close> (a list of 8-bit characters). The conversions \<open>[]byte(s)\<close> and
  \<open>string(b)\<close> copy the bytes unchanged.
\<close>

type_synonym byte = "8 word"

definition bytes_of_string :: "string \<Rightarrow> byte list" where
  "bytes_of_string s = map (\<lambda>c. word_of_nat (of_char c)) s"

definition string_of_bytes :: "byte list \<Rightarrow> string" where
  "string_of_bytes bs = map (\<lambda>b. char_of (unat b)) bs"

text \<open>
  The \<open>io.Writer\<close> handed to \<open>WriteBinaryMessage\<close>: the bytes accepted so far and the
  number of bytes it still accepts (\<open>None\<close>: no limit, as for a \<open>bytes.Buffer\<close>).
  A write that does not fit accepts what fits and reports \<open>io.ErrShortWrite\<close>.
\<close>

record Writer =
  written :: "byte list"
  room :: "nat option"

definition new_Buffer :: Writer where
  "new_Buffer = \<lparr>written = [], room = None\<rparr>"

definition Write :: "Writer \<Rightarrow> byte list \<Rightarrow> string option \<times> Writer" where
  "Write w bs =
     (case room w of
        None \<Rightarrow> (None, w\<lparr>written := written w @ bs\<rparr>)
      | Some k \<Rightarrow>
          if length bs \<le> k
          then (None, w\<lparr>written := written w @ bs, room := Some (k - length bs)\<rparr>)
          else (Some ''short write'', w\<lparr>written := written w @ take k bs, room := Some 0\<rparr>))"

text \<open>
  \<open>binary.Write\<close> with \<open>binary.BigEndian\<close> lays a fixed-size value out most significant
  byte first and hands the bytes to the writer in one call.
\<close>

definition put_u16 :: "16 word \<Rightarrow> byte list" where
  "put_u16 v = [ucast (drop_bit 8 v), ucast v]"

definition put_u32 :: "32 word \<Rightarrow> byte list" where
  "put_u32 v = [ucast (drop_bit 24 v), ucast (drop_bit 16 v), ucast (drop_bit 8 v), ucast v]"

definition get_u16 :: "byte list \<Rightarrow> 16 word" where
  "get_u16 b = or (ucast (b ! 1)) (push_bit 8 (ucast (b ! 0)))"

definition get_u32 :: "byte list \<Rightarrow> 32 word" where
  "get_u32 b = or (or (or (ucast (b ! 3)) (push_bit 8 (ucast (b ! 2))))
                      (push_bit 16 (ucast (b ! 1))))
                  (push_bit 24 (ucast (b ! 0)))"

text \<open>
  The \<open>io.Reader\<close> is the list of bytes still to come; its end is the end of the stream.
  \<open>io.ReadFull\<close> fills a buffer of \<open>n\<close> bytes or fails: with \<open>io.EOF\<close> when no byte was
  read, with \<open>io.ErrUnexpectedEOF\<close> when the stream ended part-way. \<open>binary.Read\<close> reads
  the size of its value through \<open>io.ReadFull\<close>.
\<close>

type_synonym Reader = "byte list"

definition ReadFull :: "Reader \<Rightarrow> nat \<Rightarrow> string + (byte list \<times> Reader)" where
  "ReadFull r n =
     (if n \<le> length r then Inr (take n r, drop n r)
      else if r = [] then Inl ''EOF''
      else Inl ''unexpected EOF'')"

definition binary_Read_u8 :: "Reader \<Rightarrow> string + (byte \<times> Reader)" where
  "binary_Read_u8 r = (case ReadFull r 1 of Inl e \<Rightarrow> Inl e | Inr (b, r') \<Rightarrow> Inr (b ! 0, r'))"

definition binary_Read_u16 :: "Reader \<Rightarrow> string + (16 word \<times> Reader)" where
  "binary_Read_u16 r = (case ReadFull r 2 of Inl e \<Rightarrow> Inl e | Inr (b, r') \<Rightarrow> Inr (get_u16 b, r'))"

definition binary_Read_u32 :: "Reader \<Rightarrow> string + (32 word \<times> Reader)" where
  "binary_Read_u32 r = (case ReadFull r 4 of Inl e \<Rightarrow> Inl e | Inr (b, r') \<Rightarrow> Inr (get_u32 b, r'))"

section \<open>Binary frames (WriteBinaryMessage, ReadBinaryMessage)\<close>

definition MsgTypeAuth :: byte where "MsgTypeAuth = 0"
definition MsgTypeAuthSuccess :: byte where "MsgTypeAuthSuccess = 1"
definition MsgTypeError :: byte where "MsgTypeError = 2"
definition MsgTypeConnect :: byte where "MsgTypeConnect = 3"
definition MsgTypeConnected :: byte where "MsgTypeConnected = 4"
definition MsgTypeData :: byte where "MsgTypeData = 5"
definition MsgTypeClose :: byte where "MsgTypeClose = 6"
definition MsgTypePing :: byte where "MsgTypePing = 7"
definition MsgTypePong :: byte where "MsgTypePong = 8"
definition MsgTypeAddress :: byte where "MsgTypeAddress = 9"
definition MsgTypeUIDRegister :: byte where "MsgTypeUIDRegister = 10"

record BinaryMessage =
  bType :: byte
  bID :: string
  bAddr :: string
  bData :: "byte list"

text \<open>
  The lengths are converted with \<open>uint16(len(...))\<close> and \<open>uint32(len(...))\<close>, which keep
  the low 16 and 32 bits; the field itself is written whole whenever the converted
  length is not zero.
\<close>

definition WriteBinaryMessage :: "Writer \<Rightarrow> BinaryMessage \<Rightarrow> string option \<times> Writer" where
  "WriteBinaryMessage w msg =
     (case Write w [bType msg] of
        (Some err, w1) \<Rightarrow> (Some (''failed to write message type: '' @ err), w1)
      | (None, w1) \<Rightarrow>
     let idLen = (word_of_nat (length (bID msg)) :: 16 word) in
     (case Write w1 (put_u16 idLen) of
        (Some err, w2) \<Rightarrow> (Some (''failed to write ID length: '' @ err), w2)
      | (None, w2) \<Rightarrow>
     (case (if idLen > 0 then Write w2 (bytes_of_string (bID msg)) else (None, w2)) of
        (Some err, w3) \<Rightarrow> (Some (''failed to write ID: '' @ err), w3)
      | (None, w3) \<Rightarrow>
     let addrLen = (word_of_nat (length (bAddr msg)) :: 16 word) in
     (case Write w3 (put_u16 addrLen) of
        (Some err, w4) \<Rightarrow> (Some (''failed to write addr length: '' @ err), w4)
      | (None, w4) \<Rightarrow>
     (case (if addrLen > 0 then Write w4 (bytes_of_string (bAddr msg)) else (None, w4)) of
        (Some err, w5) \<Rightarrow> (Some (''failed to write addr: '' @ err), w5)
      | (None, w5) \<Rightarrow>
     let dataLen = (word_of_nat (length (bData msg)) :: 32 word) in
     (case Write w5 (put_u32 dataLen) of
        (Some err, w6) \<Rightarrow> (Some (''failed to write data length: '' @ err), w6)
      | (None, w6) \<Rightarrow>
     (case (if dataLen > 0 then Write w6 (bData msg) else (None, w6)) of
        (Some err, w7) \<Rightarrow> (Some (''failed to write data: '' @ err), w7)
      | (None, w7) \<Rightarrow> (None, w7))))))))"

definition ReadBinaryMessage :: "Reader \<Rightarrow> string + (BinaryMessage \<times> Reader)" where
  "ReadBinaryMessage r =
     (case binary_Read_u8 r of
        Inl err \<Rightarrow> Inl (''failed to read message type: '' @ err)
      | Inr (t, r1) \<Rightarrow>
     (case binary_Read_u16 r1 of
        Inl err \<Rightarrow> Inl (''failed to read ID length: '' @ err)
      | Inr (idLen, r2) \<Rightarrow>
     (case (if idLen > 0
            then (case ReadFull r2 (unat idLen) of
                    Inl err \<Rightarrow> Inl (''failed to read ID: '' @ err)
                  | Inr (idBytes, r') \<Rightarrow> Inr (string_of_bytes idBytes, r'))
            else Inr ([], r2)) of
        Inl err \<Rightarrow> Inl err
      | Inr (msgID, r3) \<Rightarrow>
     (case binary_Read_u16 r3 of
        Inl err \<Rightarrow> Inl (''failed to read addr length: '' @ err)
      | Inr (addrLen, r4) \<Rightarrow>
     (case (if addrLen > 0
            then (case ReadFull r4 (unat addrLen) of
                    Inl err \<Rightarrow> Inl (''failed to read addr: '' @ err)
                  | Inr (addrBytes, r') \<Rightarrow> Inr (string_of_bytes addrBytes, r'))
            else Inr ([], r4)) of
        Inl err \<Rightarrow> Inl err
      | Inr (msgAddr, r5) \<Rightarrow>
     (case binary_Read_u32 r5 of
        Inl err \<Rightarrow> Inl (''failed to read data length: '' @ err)
      | Inr (dataLen, r6) \<Rightarrow>
     (case (if dataLen > 0
            then (case ReadFull r6 (unat dataLen) of
                    Inl err \<Rightarrow> Inl (''failed to read data: '' @ err)
                  | Inr (dataBytes, r') \<Rightarrow> Inr (dataBytes, r'))
            else Inr ([], r6)) of
        Inl err \<Rightarrow> Inl err
      | Inr (msgData, r7) \<Rightarrow>
          Inr (\<lparr>bType = t, bID = msgID, bAddr = msgAddr, bData = msgData\<rparr>, r7))))))))"

text \<open>The bytes that \<open>WriteBinaryMessage\<close> leaves in a fresh \<open>bytes.Buffer\<close>.\<close>

definition encode :: "BinaryMessage \<Rightarrow> byte list" where
  "encode msg = written (snd (WriteBinaryMessage new_Buffer msg))"

section \<open>Text messages and their conversion (Message, MessageToBinary, BinaryToMessage)\<close>

record Message =
  Type :: string
  ID :: string
  Addr :: string
  Data :: string

definition MessageToBinary :: "Message \<Rightarrow> BinaryMessage" where
  "MessageToBinary m =
     (let bm = \<lparr>bType = 0, bID = ID m, bAddr = Addr m, bData = []\<rparr> in
      if Type m = ''auth'' then bm\<lparr>bType := MsgTypeAuth\<rparr>
      else if Type m = ''auth_success'' then bm\<lparr>bType := MsgTypeAuthSuccess\<rparr>
      else if Type m = ''error'' then bm\<lparr>bType := MsgTypeError\<rparr>
      else if Type m = ''connect'' then bm\<lparr>bType := MsgTypeConnect\<rparr>
      else if Type m = ''connected'' then bm\<lparr>bType := MsgTypeConnected\<rparr>
      else if Type m = ''data''
        then bm\<lparr>bType := MsgTypeData, bData := bytes_of_string (Data m)\<rparr>
      else if Type m = ''close'' then bm\<lparr>bType := MsgTypeClose\<rparr>
      else if Type m = ''ping'' then bm\<lparr>bType := MsgTypePing\<rparr>
      else if Type m = ''pong'' then bm\<lparr>bType := MsgTypePong\<rparr>
      else if Type m = ''address'' then bm\<lparr>bType := MsgTypeAddress\<rparr>
      else if Type m = ''uid-register'' then bm\<lparr>bType := MsgTypeUIDRegister\<rparr>
      else bm)"

definition BinaryToMessage :: "BinaryMessage \<Rightarrow> Message" where
  "BinaryToMessage bm =
     (let m = \<lparr>Type = [], ID = bID bm, Addr = bAddr bm, Data = string_of_bytes (bData bm)\<rparr> in
      if bType bm = MsgTypeAuth then m\<lparr>Type := ''auth''\<rparr>
      else if bType bm = MsgTypeAuthSuccess then m\<lparr>Type := ''auth_success''\<rparr>
      else if bType bm = MsgTypeError then m\<lparr>Type := ''error''\<rparr>
      else if bType bm = MsgTypeConnect then m\<lparr>Type := ''connect''\<rparr>
      else if bType bm = MsgTypeConnected then m\<lparr>Type := ''connected''\<rparr>
      else if bType bm = MsgTypeData then m\<lparr>Type := ''data''\<rparr>
      else if bType bm = MsgTypeClose then m\<lparr>Type := ''close''\<rparr>
      else if bType bm = MsgTypePing then m\<lparr>Type := ''ping''\<rparr>
      else if bType bm = MsgTypePong then m\<lparr>Type := ''pong''\<rparr>
      else if bType bm = MsgTypeAddress then m\<lparr>Type := ''address''\<rparr>
      else if bType bm = MsgTypeUIDRegister then m\<lparr>Type := ''uid-register''\<rparr>
      else m)"

text \<open>The eleven type strings of the text protocol.\<close>

definition known_types :: "string list" where
  "known_types = [''auth'', ''auth_success'', ''error'', ''connect'', ''connected'', ''data'',
                  ''close'', ''ping'', ''pong'', ''address'', ''uid-register'']"

text \<open>The layout of a frame whose three lengths fit their prefixes.\<close>

definition frame_layout :: "BinaryMessage \<Rightarrow> byte list" where
  "frame_layout msg =
     [bType msg] @ put_u16 (word_of_nat (length (bID msg))) @ bytes_of_string (bID msg)
       @ put_u16 (word_of_nat (length (bAddr msg))) @ bytes_of_string (bAddr msg)
       @ put_u32 (word_of_nat (length (bData msg))) @ bData msg"

section \<open>Dialling a destination (dialWithDNSFallback)\<close>
















section \<open>Configuration file and credential store (package config)\<close>

record Config =
  ServerURL :: string
  APIToken :: string
  UserID :: string
  Email :: string
  VerboseLogging :: bool
  AutoStart :: "bool option"

text \<open>
  The operating system as \<open>SaveConfig\<close> sees it. The state holds the files (content and
  permission bits), the keyring (service and account to secret) and the log. The
  environment fixes what the function cannot decide: the home directory, the path
  functions of \<open>path/filepath\<close>, whether \<open>os.MkdirAll\<close>, \<open>keyring.Set\<close> and
  \<open>os.WriteFile\<close> fail (\<open>Some\<close> error message), and how \<open>encoding/json\<close> writes a
  string value (quotes and escapes).
\<close>

record Disk =
  files :: "string \<rightharpoonup> (string \<times> nat)"
  keyring :: "(string \<times> string) \<rightharpoonup> string"
  diskLog :: "string list"

record OSEnv =
  UserHomeDir :: string
  filepathJoin :: "string list \<Rightarrow> string"
  filepathDir :: "string \<Rightarrow> string"
  MkdirAll :: "string \<Rightarrow> nat \<Rightarrow> string option"
  keyringSet :: "string \<Rightarrow> string \<Rightarrow> string \<Rightarrow> string option"
  WriteFileErr :: "string \<Rightarrow> string option"
  jsonString :: "string \<Rightarrow> string"

definition KeyringService :: string where
  "KeyringService = ''vyx-proxy-client''"

definition KeyringTokenKey :: string where
  "KeyringTokenKey = ''api-token''"

record SecureStorage =
  service :: string
  userID :: string

definition NewSecureStorage :: "string \<Rightarrow> SecureStorage" where
  "NewSecureStorage uid =
     (let uid' = (if uid = [] then ''default-user'' else uid)
      in \<lparr>service = KeyringService, userID = uid'\<rparr>)"

definition SaveToken :: "OSEnv \<Rightarrow> SecureStorage \<Rightarrow> string \<Rightarrow> Disk \<Rightarrow> string option \<times> Disk" where
  "SaveToken env s token d =
     (if token = [] then (Some ''token cannot be empty'', d)
      else case keyringSet env (service s) (userID s) token of
             Some err \<Rightarrow> (Some (''failed to save token to secure storage: '' @ err), d)
           | None \<Rightarrow>
               (None, d\<lparr>keyring := (keyring d)((service s, userID s) \<mapsto> token),
                        diskLog := diskLog d @ [''Token securely saved for user: '' @ userID s]\<rparr>))"

text \<open>
  \<open>json.MarshalIndent(config, "", "  ")\<close> for the struct \<open>Config\<close>: one line per field
  that is written, in the order of the struct. \<open>APIToken\<close> carries the tag \<open>json:"-"\<close> and
  is never a field of the output; the fields tagged \<open>omitempty\<close> are left out when empty,
  false or nil. Marshalling this struct cannot fail.
\<close>

definition dq :: char where
  "dq = CHR 0x22"

definition nl :: char where
  "nl = CHR 0x0A"

definition jsonBool :: "bool \<Rightarrow> string" where
  "jsonBool b = (if b then ''true'' else ''false'')"

definition jsonFields :: "OSEnv \<Rightarrow> Config \<Rightarrow> (string \<times> string) list" where
  "jsonFields env c =
     [(''server_url'', jsonString env (ServerURL c))]
     @ (if UserID c = [] then [] else [(''user_id'', jsonString env (UserID c))])
     @ (if Email c = [] then [] else [(''email'', jsonString env (Email c))])
     @ (if VerboseLogging c then [(''verbose_logging'', jsonBool (VerboseLogging c))] else [])
     @ (case AutoStart c of None \<Rightarrow> [] | Some b \<Rightarrow> [(''auto_start'', jsonBool b)])"

fun joinLines :: "string list \<Rightarrow> string" where
  "joinLines [] = []"
| "joinLines [l] = l"
| "joinLines (l # ls) = l @ [CHR '','', nl] @ joinLines ls"

definition MarshalIndent :: "OSEnv \<Rightarrow> Config \<Rightarrow> string" where
  "MarshalIndent env c =
     ''{'' @ [nl]
       @ joinLines (map (\<lambda>(k, v). ''  '' @ [dq] @ k @ [dq] @ '': '' @ v) (jsonFields env c))
       @ [nl] @ ''}''"

definition getConfigPath :: "OSEnv \<Rightarrow> string" where
  "getConfigPath env = filepathJoin env [UserHomeDir env, ''.vyx'', ''config.json'']"

text \<open>
  \<open>os.WriteFile\<close> creates the file with the given permission bits, or replaces the
  content of an existing file and keeps its bits. The bits are written in decimal below:
  octal 0755 is 493 and octal 0600 is 384.
\<close>

definition WriteFile :: "OSEnv \<Rightarrow> string \<Rightarrow> string \<Rightarrow> nat \<Rightarrow> Disk \<Rightarrow> string option \<times> Disk" where
  "WriteFile env path data perm d =
     (case WriteFileErr env path of
        Some err \<Rightarrow> (Some err, d)
      | None \<Rightarrow>
          (None, d\<lparr>files := (files d)(path \<mapsto>
                     (data, case files d path of None \<Rightarrow> perm | Some (old, bits) \<Rightarrow> bits))\<rparr>))"

definition SaveConfig :: "OSEnv \<Rightarrow> Config \<Rightarrow> Disk \<Rightarrow> string option \<times> Disk" where
  "SaveConfig env config d =
     (let configPath = getConfigPath env;
          configDir = filepathDir env configPath
      in case MkdirAll env configDir 493 of
           Some err \<Rightarrow> (Some err, d)
         | None \<Rightarrow>
             let d1 = (if APIToken config \<noteq> [] \<and> UserID config \<noteq> []
                       then (let storage = NewSecureStorage (UserID config)
                             in case SaveToken env storage (APIToken config) d of
                                  (Some err, d') \<Rightarrow>
                                    d'\<lparr>diskLog := diskLog d' @
                                      [''Warning: Failed to save token to secure storage: '' @ err]\<rparr>
                                | (None, d') \<Rightarrow> d')
                       else d);
                 data = MarshalIndent env config
             in WriteFile env configPath data 384 d1)"

text \<open>A Unix-like system on which nothing fails, with a plain rendering of strings.\<close>

definition unix_env :: OSEnv where
  "unix_env =
     \<lparr>UserHomeDir = ''/home/u'',
      filepathJoin = (\<lambda>ps. case ps of [a, b, c] \<Rightarrow> a @ ''/'' @ b @ ''/'' @ c | _ \<Rightarrow> concat ps),
      filepathDir = (\<lambda>p. ''/home/u/.vyx''),
      MkdirAll = (\<lambda>p m. None),
      keyringSet = (\<lambda>s a t. None),
      WriteFileErr = (\<lambda>p. None),
      jsonString = (\<lambda>s. [dq] @ s @ [dq])\<rparr>"

definition empty_disk :: Disk where
  "empty_disk = \<lparr>files = Map.empty, keyring = Map.empty, diskLog = []\<rparr>"

definition u1_config :: Config where
  "u1_config = \<lparr>ServerURL = ''proxy.vyx.network'', APIToken = [], UserID = ''u1'',
                 Email = ''a@b.c'', VerboseLogging = False, AutoStart = None\<rparr>"

section \<open>Theorems\<close>

text \<open>
  Claim C3. For every reconnect attempt index \<open>n \<ge> 1\<close> and both flags, the delay computed
  by \<open>getRetryDelay\<close> is the one of the specification's table: 30 s when not logged in,
  else 60 s when authentication failed, else 0 s for attempt 1, 5 s for attempts 2 to 4,
  15 s for 5 to 7, 30 s for 8 to 10, 60 s for 11 to 15 and 300 s from attempt 16 on.
\<close>

theorem getRetryDelay_table:
  assumes "1 \<le> n"
  shows "getRetryDelay n authFailed notLoggedIn
           = spec_delay_seconds n authFailed notLoggedIn * Second"
  using assms by (simp add: getRetryDelay_def spec_delay_seconds_def Minute_def)

theorem getRetryDelay_table_witness:
  "(1::int) \<le> 16 \<and> getRetryDelay 16 False False = 300 * Second
     \<and> spec_delay_seconds 16 False False = 300"
  using getRetryDelay_table [of 16 False False]
  by (simp add: spec_delay_seconds_def)

subsection \<open>Binary frames\<close>

lemma string_of_bytes_of_string: "string_of_bytes (bytes_of_string s) = s"
proof -
  have "char_of (unat (word_of_nat (of_char c) :: byte)) = c" for c :: char
  proof -
    have "(of_char c :: nat) < 256" by (rule nat_of_char_less_256)
    hence "unat (word_of_nat (of_char c) :: byte) = of_char c"
      by (simp add: unat_of_nat)
    thus ?thesis by simp
  qed
  thus ?thesis
    by (simp add: string_of_bytes_def bytes_of_string_def comp_def)
qed

lemma string_of_bytes_Nil: "string_of_bytes [] = []"
  by (simp add: string_of_bytes_def)

lemma length_bytes_of_string: "length (bytes_of_string s) = length s"
  by (simp add: bytes_of_string_def)

lemma get_put_u16: "get_u16 (put_u16 v) = v"
  unfolding get_u16_def put_u16_def
  by (rule bit_word_eqI) (auto simp add: bit_simps)

lemma get_put_u32: "get_u32 (put_u32 v) = v"
  unfolding get_u32_def put_u32_def
proof (rule bit_word_eqI)
  fix n :: nat
  assume n: "n < LENGTH(32)"
  let ?w = "or (or (or (ucast ([ucast (drop_bit 24 v), ucast (drop_bit 16 v),
                 ucast (drop_bit 8 v), ucast v :: byte] ! 3))
               (push_bit 8 (ucast ([ucast (drop_bit 24 v), ucast (drop_bit 16 v),
                 ucast (drop_bit 8 v), ucast v :: byte] ! 2))))
               (push_bit 16 (ucast ([ucast (drop_bit 24 v), ucast (drop_bit 16 v),
                 ucast (drop_bit 8 v), ucast v :: byte] ! 1))))
               (push_bit 24 (ucast ([ucast (drop_bit 24 v), ucast (drop_bit 16 v),
                 ucast (drop_bit 8 v), ucast v :: byte] ! 0))) :: 32 word"
  consider "n < 8" | "8 \<le> n" "n < 16" | "16 \<le> n" "n < 24" | "24 \<le> n" "n < 32"
    using n by fastforce
  then show "bit ?w n = bit v n"
    by cases (auto simp add: bit_simps)
qed

lemma word_pos_unat: "(0 < (w :: 'a::len word)) = (unat w \<noteq> 0)"
  by (simp add: word_greater_zero_iff unat_eq_0)

lemma ReadFull_append: "ReadFull (xs @ rest) (length xs) = Inr (xs, rest)"
  by (simp add: ReadFull_def)

lemma read_u8_cons: "binary_Read_u8 (b # r) = Inr (b, r)"
  by (simp add: binary_Read_u8_def ReadFull_def)

lemma read_u16_put: "binary_Read_u16 (put_u16 v @ r) = Inr (v, r)"
proof -
  have "ReadFull (put_u16 v @ r) 2 = Inr (put_u16 v, r)"
    by (simp add: ReadFull_def put_u16_def)
  thus ?thesis by (simp add: binary_Read_u16_def get_put_u16)
qed

lemma read_u32_put: "binary_Read_u32 (put_u32 v @ r) = Inr (v, r)"
proof -
  have "ReadFull (put_u32 v @ r) 4 = Inr (put_u32 v, r)"
    by (simp add: ReadFull_def put_u32_def)
  thus ?thesis by (simp add: binary_Read_u32_def get_put_u32)
qed

lemma Write_unlimited: "room w = None \<Longrightarrow> Write w bs = (None, w\<lparr>written := written w @ bs\<rparr>)"
  by (simp add: Write_def)

lemma bytes_of_string_Nil: "bytes_of_string [] = []"
  by (simp add: bytes_of_string_def)

lemma bytes_of_string_Nil_iff: "(bytes_of_string s = []) = (s = [])"
  by (simp add: bytes_of_string_def)

lemma WriteBinaryMessage_unlimited:
  assumes "room w = None"
    and "length (bID msg) \<le> 65535" and "length (bAddr msg) \<le> 65535"
    and "length (bData msg) \<le> 4294967295"
  shows "WriteBinaryMessage w msg = (None, w\<lparr>written := written w @ frame_layout msg\<rparr>)"
proof -
  have i: "((word_of_nat (length (bID msg)) :: 16 word) > 0) = (bID msg \<noteq> [])"
    using assms(2) by (simp add: word_pos_unat unat_of_nat)
  have a: "((word_of_nat (length (bAddr msg)) :: 16 word) > 0) = (bAddr msg \<noteq> [])"
    using assms(3) by (simp add: word_pos_unat unat_of_nat)
  have d: "((word_of_nat (length (bData msg)) :: 32 word) > 0) = (bData msg \<noteq> [])"
    using assms(4) by (simp add: word_pos_unat unat_of_nat)
  show ?thesis
    unfolding WriteBinaryMessage_def Let_def i a d
    using assms(1)
    by (simp add: Write_unlimited frame_layout_def bytes_of_string_def)
qed

lemma ReadBinaryMessage_layout:
  assumes "length (bID msg) \<le> 65535" and "length (bAddr msg) \<le> 65535"
    and "length (bData msg) \<le> 4294967295"
  shows "ReadBinaryMessage (frame_layout msg @ rest) = Inr (msg, rest)"
proof -
  have i: "((word_of_nat (length (bID msg)) :: 16 word) > 0) = (bID msg \<noteq> [])"
    using assms(1) by (simp add: word_pos_unat unat_of_nat)
  have a: "((word_of_nat (length (bAddr msg)) :: 16 word) > 0) = (bAddr msg \<noteq> [])"
    using assms(2) by (simp add: word_pos_unat unat_of_nat)
  have d: "((word_of_nat (length (bData msg)) :: 32 word) > 0) = (bData msg \<noteq> [])"
    using assms(3) by (simp add: word_pos_unat unat_of_nat)
  have ui: "unat (word_of_nat (length (bID msg)) :: 16 word) = length (bytes_of_string (bID msg))"
    using assms(1) by (simp add: unat_of_nat length_bytes_of_string)
  have ua: "unat (word_of_nat (length (bAddr msg)) :: 16 word) = length (bytes_of_string (bAddr msg))"
    using assms(2) by (simp add: unat_of_nat length_bytes_of_string)
  have ud: "unat (word_of_nat (length (bData msg)) :: 32 word) = length (bData msg)"
    using assms(3) by (simp add: unat_of_nat)
  show ?thesis
    unfolding ReadBinaryMessage_def frame_layout_def
    by (simp add: read_u8_cons read_u16_put read_u32_put i a d ui ua ud ReadFull_append
        string_of_bytes_of_string bytes_of_string_Nil_iff bytes_of_string_Nil del: of_nat_eq_0_iff)
qed


text \<open>
  Claim C1. For every frame whose id and addr are at most 65535 bytes long and whose payload
  is at most \<open>2^32 - 1\<close> bytes long, \<open>WriteBinaryMessage\<close> succeeds on a buffer and
  \<open>ReadBinaryMessage\<close> reads the written bytes back as the same frame (type byte, id, addr
  and payload), leaving whatever follows the frame unread. The type byte is arbitrary, so
  this covers each of the eleven codes 0 to 10.
\<close>

theorem binary_frame_roundtrip:
  assumes "length (bID F) \<le> 65535" and "length (bAddr F) \<le> 65535"
    and "length (bData F) \<le> 4294967295"
  shows "fst (WriteBinaryMessage new_Buffer F) = None
         \<and> ReadBinaryMessage (encode F @ rest) = Inr (F, rest)"
proof -
  have w: "WriteBinaryMessage new_Buffer F
             = (None, new_Buffer\<lparr>written := written new_Buffer @ frame_layout F\<rparr>)"
    using assms by (intro WriteBinaryMessage_unlimited) (simp_all add: new_Buffer_def)
  hence "encode F = frame_layout F"
    by (simp add: encode_def new_Buffer_def)
  thus ?thesis
    using w ReadBinaryMessage_layout [OF assms] by simp
qed

theorem binary_frame_roundtrip_witness:
  "length (bID \<lparr>bType = MsgTypeData, bID = ''x'', bAddr = [], bData = [1, 2]\<rparr>) \<le> 65535
   \<and> length (bAddr \<lparr>bType = MsgTypeData, bID = ''x'', bAddr = [], bData = [1, 2]\<rparr>) \<le> 65535
   \<and> length (bData \<lparr>bType = MsgTypeData, bID = ''x'', bAddr = [], bData = [1, 2]\<rparr>) \<le> 4294967295
   \<and> encode \<lparr>bType = MsgTypeData, bID = ''x'', bAddr = [], bData = [1, 2]\<rparr>
         = [5, 0, 1, 120, 0, 0, 0, 0, 0, 2, 1, 2]
   \<and> ReadBinaryMessage [5, 0, 1, 120, 0, 0, 0, 0, 0, 2, 1, 2]
         = Inr (\<lparr>bType = MsgTypeData, bID = ''x'', bAddr = [], bData = [1, 2]\<rparr>, [])"
proof -
  let ?F = "\<lparr>bType = MsgTypeData, bID = ''x'', bAddr = [], bData = [1, 2]\<rparr>"
  have e: "encode ?F = [5, 0, 1, 120, 0, 0, 0, 0, 0, 2, 1, 2]"
    by (simp add: encode_def WriteBinaryMessage_def new_Buffer_def Write_def put_u16_def
        put_u32_def bytes_of_string_def MsgTypeData_def)
  show ?thesis
    using binary_frame_roundtrip [of ?F "[]"] e by simp
qed

text \<open>
  Claim C10. For a text message whose type is one of the eleven known strings, converting
  to the binary form and back keeps Type, ID and Addr. The Data field is kept when the type
  is \<open>data\<close>; for every other known type \<open>MessageToBinary\<close> leaves the binary payload
  empty, so the message comes back with an empty Data field.
\<close>

theorem message_binary_roundtrip:
  assumes "Type m \<in> set known_types"
  shows "Type (BinaryToMessage (MessageToBinary m)) = Type m
       \<and> ID (BinaryToMessage (MessageToBinary m)) = ID m
       \<and> Addr (BinaryToMessage (MessageToBinary m)) = Addr m
       \<and> (if Type m = ''data''
          then Data (BinaryToMessage (MessageToBinary m)) = Data m
          else bData (MessageToBinary m) = []
               \<and> Data (BinaryToMessage (MessageToBinary m)) = [])"
proof -
  consider "Type m = ''auth''" | "Type m = ''auth_success''" | "Type m = ''error''"
    | "Type m = ''connect''" | "Type m = ''connected''" | "Type m = ''data''"
    | "Type m = ''close''" | "Type m = ''ping''" | "Type m = ''pong''"
    | "Type m = ''address''" | "Type m = ''uid-register''"
    using assms unfolding known_types_def by auto
  then show ?thesis
    by cases
      (simp_all add: MessageToBinary_def BinaryToMessage_def string_of_bytes_of_string
        string_of_bytes_Nil
        MsgTypeAuth_def MsgTypeAuthSuccess_def MsgTypeError_def MsgTypeConnect_def
        MsgTypeConnected_def MsgTypeData_def MsgTypeClose_def MsgTypePing_def
        MsgTypePong_def MsgTypeAddress_def MsgTypeUIDRegister_def)
qed

theorem message_binary_roundtrip_witness:
  "Type \<lparr>Type = ''connect'', ID = ''7'', Addr = ''example.org:80'', Data = ''aGk=''\<rparr>
      \<in> set known_types
   \<and> BinaryToMessage (MessageToBinary
        \<lparr>Type = ''connect'', ID = ''7'', Addr = ''example.org:80'', Data = ''aGk=''\<rparr>)
      = \<lparr>Type = ''connect'', ID = ''7'', Addr = ''example.org:80'', Data = []\<rparr>"
proof -
  let ?m = "\<lparr>Type = ''connect'', ID = ''7'', Addr = ''example.org:80'', Data = ''aGk=''\<rparr>"
  have k: "Type ?m \<in> set known_types" by (simp add: known_types_def)
  show ?thesis
    using message_binary_roundtrip [OF k] k
    by (cases "BinaryToMessage (MessageToBinary ?m)") simp
qed


subsection \<open>Dialling with the DNS fallback\<close>






subsection \<open>The configuration file\<close>

lemma jsonFields_token: "jsonFields env (c\<lparr>APIToken := t\<rparr>) = jsonFields env c"
  by (simp add: jsonFields_def)

lemma MarshalIndent_token: "MarshalIndent env (c\<lparr>APIToken := t\<rparr>) = MarshalIndent env c"
  by (simp add: MarshalIndent_def jsonFields_token)

lemma SaveToken_files: "files (snd (SaveToken env s t d)) = files d"
  by (simp add: SaveToken_def split: option.splits)

lemma SaveConfig_files:
  "files (snd (SaveConfig env c d)) =
     (case MkdirAll env (filepathDir env (getConfigPath env)) 493 of
        Some err \<Rightarrow> files d
      | None \<Rightarrow> (case WriteFileErr env (getConfigPath env) of
           Some err \<Rightarrow> files d
         | None \<Rightarrow> (files d)(getConfigPath env \<mapsto> (MarshalIndent env c,
                  case files d (getConfigPath env) of None \<Rightarrow> 384 | Some (old, bits) \<Rightarrow> bits))))"
  by (simp add: SaveConfig_def Let_def WriteFile_def SaveToken_def split: option.splits prod.splits)

lemma SaveConfig_err:
  "fst (SaveConfig env c d) =
     (case MkdirAll env (filepathDir env (getConfigPath env)) 493 of
        Some err \<Rightarrow> Some err
      | None \<Rightarrow> WriteFileErr env (getConfigPath env))"
  by (simp add: SaveConfig_def Let_def WriteFile_def split: option.splits prod.splits)

lemma SaveConfig_keyring:
  assumes "APIToken c \<noteq> []" and "UserID c \<noteq> []"
    and "MkdirAll env (filepathDir env (getConfigPath env)) 493 = None"
    and "keyringSet env KeyringService (UserID c) (APIToken c) = None"
  shows "keyring (snd (SaveConfig env c d)) (KeyringService, UserID c) = Some (APIToken c)"
  using assms
  by (simp add: SaveConfig_def Let_def WriteFile_def SaveToken_def NewSecureStorage_def
      split: option.splits)

text \<open>
  Claim C9. The bearer token does not reach the configuration file: for every
  configuration, system and state, saving it with one token or with another writes the
  same JSON text, leaves the same files and returns the same error. The token goes to
  the keyring instead: when it and the user id are not empty and the directory and the
  keyring accept the call, it is stored under the service \<open>vyx-proxy-client\<close> with the
  user id as the account.
\<close>

theorem config_file_hides_token:
  "MarshalIndent env (c\<lparr>APIToken := ta\<rparr>) = MarshalIndent env (c\<lparr>APIToken := tb\<rparr>)
   \<and> files (snd (SaveConfig env (c\<lparr>APIToken := ta\<rparr>) d))
       = files (snd (SaveConfig env (c\<lparr>APIToken := tb\<rparr>) d))
   \<and> fst (SaveConfig env (c\<lparr>APIToken := ta\<rparr>) d) = fst (SaveConfig env (c\<lparr>APIToken := tb\<rparr>) d)
   \<and> (ta \<noteq> [] \<and> UserID c \<noteq> []
        \<and> MkdirAll env (filepathDir env (getConfigPath env)) 493 = None
        \<and> keyringSet env KeyringService (UserID c) ta = None
       \<longrightarrow> keyring (snd (SaveConfig env (c\<lparr>APIToken := ta\<rparr>) d)) (KeyringService, UserID c)
             = Some ta)"
proof (intro conjI impI)
  show "MarshalIndent env (c\<lparr>APIToken := ta\<rparr>) = MarshalIndent env (c\<lparr>APIToken := tb\<rparr>)"
    by (simp add: MarshalIndent_token)
  show "files (snd (SaveConfig env (c\<lparr>APIToken := ta\<rparr>) d))
       = files (snd (SaveConfig env (c\<lparr>APIToken := tb\<rparr>) d))"
    by (simp only: SaveConfig_files MarshalIndent_token)
  show "fst (SaveConfig env (c\<lparr>APIToken := ta\<rparr>) d) = fst (SaveConfig env (c\<lparr>APIToken := tb\<rparr>) d)"
    by (simp only: SaveConfig_err)
next
  assume "ta \<noteq> [] \<and> UserID c \<noteq> []
        \<and> MkdirAll env (filepathDir env (getConfigPath env)) 493 = None
        \<and> keyringSet env KeyringService (UserID c) ta = None"
  then show "keyring (snd (SaveConfig env (c\<lparr>APIToken := ta\<rparr>) d)) (KeyringService, UserID c)
             = Some ta"
    using SaveConfig_keyring [of "c\<lparr>APIToken := ta\<rparr>" env d] by simp
qed

theorem config_file_hides_token_witness:
  "''tok-A'' \<noteq> [] \<and> UserID u1_config \<noteq> []
   \<and> MkdirAll unix_env (filepathDir unix_env (getConfigPath unix_env)) 493 = None
   \<and> keyringSet unix_env KeyringService (UserID u1_config) ''tok-A'' = None
   \<and> files (snd (SaveConfig unix_env (u1_config\<lparr>APIToken := ''tok-A''\<rparr>) empty_disk))
       = files (snd (SaveConfig unix_env (u1_config\<lparr>APIToken := ''tok-B''\<rparr>) empty_disk))
   \<and> keyring (snd (SaveConfig unix_env (u1_config\<lparr>APIToken := ''tok-A''\<rparr>) empty_disk))
        (''vyx-proxy-client'', ''u1'') = Some ''tok-A''"
  using config_file_hides_token [where env = unix_env and c = u1_config and ta = "''tok-A''"
      and tb = "''tok-B''" and d = empty_disk]
  by (simp add: unix_env_def u1_config_def KeyringService_def)

lemma saved_file_example:
  "files (snd (SaveConfig unix_env (u1_config\<lparr>APIToken := ''tok-A''\<rparr>) empty_disk))
     ''/home/u/.vyx/config.json''
   = Some (''{'' @ [nl] @ ''  '' @ [dq] @ ''server_url'' @ [dq] @ '': '' @ [dq] @ ''proxy.vyx.network'' @ [dq] @ '','' @ [nl]
           @ ''  '' @ [dq] @ ''user_id'' @ [dq] @ '': '' @ [dq] @ ''u1'' @ [dq] @ '','' @ [nl]
           @ ''  '' @ [dq] @ ''email'' @ [dq] @ '': '' @ [dq] @ ''a@b.c'' @ [dq] @ [nl] @ ''}'', 384)"
  by (simp add: SaveConfig_files getConfigPath_def unix_env_def u1_config_def empty_disk_def
      MarshalIndent_def jsonFields_def)

end
